theory Spec2Isabelle
  imports Complex_Main
begin

section \<open>Errors\<close>

text \<open>
  The exceptions of \<^verbatim>\<open>eis_toolkit.exceptions\<close> that the modelled functions raise, the
  Python built-ins that the modelled arithmetic and look-ups can raise, and one
  constructor for whatever a third-party routine (rasterio, scipy, pandas) raises.
  Every \<^verbatim>\<open>raise\<close> of the source is an \<open>Inl\<close> branch of the model.
\<close>

datatype error =
    NumericValueSignException
  | EmptyDataFrameException
  | EmptyDataException
  | InvalidColumnException
  | InvalidDatasetException
  | InvalidParameterValueException
  | NonNumericDataException
  | SampleSizeExceededException
  | ZeroDivisionError
  | KeyError
  | TypeError
  | LibraryError

section \<open>Raster resampling (\<^verbatim>\<open>raster_processing/resampling.py\<close>)\<close>

subsection \<open>Numbers\<close>

text \<open>
  Scale factors and transform coefficients are Python floats in the source. A float is
  modelled by the rational number it stands for. An arithmetic operation on floats
  yields the float nearest to the exact result: the model writes \<open>fl\<close> around every exact
  result the source computes in floating point, and takes the rounding \<open>fl\<close> to the
  nearest float as a parameter, so that what is proved holds of every rounding and of
  the one of IEEE doubles among them. An integer is converted to a float without
  rounding. Python's \<^verbatim>\<open>round(x)\<close> on a float returns an integer and rounds halves to
  the even neighbour.
\<close>

definition py_round :: "rat \<Rightarrow> int" where
  "py_round x =
     (let n = \<lfloor>x\<rfloor>; d = x - of_int n in
      if d < 1 / 2 then n
      else if 1 / 2 < d then n + 1
      else if even n then n else n + 1)"

text \<open>
  Modelled from the spec: \<^verbatim>\<open>check_numeric_value_sign\<close> of
  \<^verbatim>\<open>eis_toolkit.checks.parameter\<close> is imported by the source but is not part of it. The
  spec requires the horizontal scale factor to be "strictly positive" and names
  \<^verbatim>\<open>s = 0\<close> and \<^verbatim>\<open>s = -1\<close> as violations, so the check is positivity.
\<close>

definition check_numeric_value_sign :: "rat \<Rightarrow> bool" where
  "check_numeric_value_sign x \<longleftrightarrow> 0 < x"

subsection \<open>Affine transforms\<close>

text \<open>
  The six coefficients of an \<^verbatim>\<open>affine.Affine\<close>: the matrix rows \<open>(a, b, c)\<close> and
  \<open>(d, e, f)\<close>, the third row being \<open>(0, 0, 1)\<close>. \<^verbatim>\<open>Affine.scale\<close> is a class method, so
  \<^verbatim>\<open>raster.transform.scale(sx, sy)\<close> is the pure scaling matrix, and \<^verbatim>\<open>*\<close> between two
  transforms is the matrix product, each coefficient computed in floating point as
  \<^verbatim>\<open>sa * oa + sb * od\<close> and \<^verbatim>\<open>sa * oc + sb * of + sc\<close> are.
\<close>

record affine =
  aff_a :: rat
  aff_b :: rat
  aff_c :: rat
  aff_d :: rat
  aff_e :: rat
  aff_f :: rat

definition affine_scale :: "rat \<Rightarrow> rat \<Rightarrow> affine" where
  "affine_scale sx sy =
     \<lparr>aff_a = sx, aff_b = 0, aff_c = 0, aff_d = 0, aff_e = sy, aff_f = 0\<rparr>"

definition affine_mul :: "(rat \<Rightarrow> rat) \<Rightarrow> affine \<Rightarrow> affine \<Rightarrow> affine" where
  "affine_mul fl s t =
     \<lparr>aff_a = fl (fl (aff_a s * aff_a t) + fl (aff_b s * aff_d t)),
      aff_b = fl (fl (aff_a s * aff_b t) + fl (aff_b s * aff_e t)),
      aff_c = fl (fl (fl (aff_a s * aff_c t) + fl (aff_b s * aff_f t)) + aff_c s),
      aff_d = fl (fl (aff_d s * aff_a t) + fl (aff_e s * aff_d t)),
      aff_e = fl (fl (aff_d s * aff_b t) + fl (aff_e s * aff_e t)),
      aff_f = fl (fl (fl (aff_d s * aff_c t) + fl (aff_e s * aff_f t)) + aff_f s)\<rparr>"

text \<open>
  The pixel size of a transform, as rasterio's \<^verbatim>\<open>res\<close> reports it: the coefficient
  \<open>a\<close> horizontally and \<open>-e\<close> vertically.
\<close>

definition pixel_size :: "affine \<Rightarrow> rat \<times> rat" where
  "pixel_size t = (aff_a t, - aff_e t)"

subsection \<open>Rasters, images and metadata\<close>

text \<open>The members of \<^verbatim>\<open>rasterio.enums.Resampling\<close>.\<close>

datatype Resampling =
    nearest | bilinear | cubic | cubic_spline | lanczos | average | mode_rs | gauss
  | max_rs | min_rs | med | q1 | q3 | sum_rs | rms

text \<open>
  The metadata dictionary \<^verbatim>\<open>raster.meta\<close>. The keys the source updates are fields of
  their own; the keys it leaves alone (driver, dtype, crs) are kept together in
  \<open>m_other\<close>. A nodata value may be absent (\<^verbatim>\<open>None\<close>).
\<close>

record 'm meta =
  m_transform :: affine
  m_width :: int
  m_height :: int
  m_count :: nat
  m_nodata :: "rat option"
  m_other :: 'm

text \<open>
  An open dataset: its band count, its dimensions, its transform and metadata, and the
  stored samples \<open>r_source\<close> that only a read reaches.
\<close>

record ('src, 'm) raster =
  r_count :: nat
  r_height :: nat
  r_width :: nat
  r_transform :: affine
  r_nodata :: "rat option"
  r_other :: 'm
  r_source :: 'src

definition raster_meta :: "('src, 'm) raster \<Rightarrow> 'm meta" where
  "raster_meta r =
     \<lparr>m_transform = r_transform r, m_width = int (r_width r), m_height = int (r_height r),
      m_count = r_count r, m_nodata = r_nodata r, m_other = r_other r\<rparr>"

text \<open>
  The array a read returns: its shape \<open>(bands, rows, columns)\<close> and its samples.
\<close>

record 'px image =
  img_shape :: "nat \<times> int \<times> int"
  img_pixels :: 'px

type_synonym read_request = "(nat \<times> int \<times> int) \<times> Resampling"

text \<open>
  \<^verbatim>\<open>raster.read(out_shape=..., resampling=...)\<close> is rasterio's. The model takes the
  library's resampling routine as the parameter \<open>rd\<close>: it yields the samples for the
  requested shape, or \<open>None\<close> when the library raises. An array the library returns has
  exactly the requested shape. The read is the only I/O of the module; each call is
  recorded in a log of read requests.
\<close>

definition raster_read ::
  "('src \<Rightarrow> read_request \<Rightarrow> 'px option) \<Rightarrow> ('src, 'm) raster \<Rightarrow> nat \<times> int \<times> int \<Rightarrow>
     Resampling \<Rightarrow> (error + 'px image) \<times> read_request list" where
  "raster_read rd raster out_shape resampling =
     (case rd (r_source raster) (out_shape, resampling) of
        None \<Rightarrow> (Inl LibraryError, [(out_shape, resampling)])
      | Some px \<Rightarrow>
          (Inr \<lparr>img_shape = out_shape, img_pixels = px\<rparr>, [(out_shape, resampling)]))"

definition img_height :: "'px image \<Rightarrow> int" where
  "img_height im = fst (snd (img_shape im))"

definition img_width :: "'px image \<Rightarrow> int" where
  "img_width im = snd (snd (img_shape im))"

subsection \<open>The operations\<close>

text \<open>
  The source's \<^verbatim>\<open>_resample\<close> (an Isabelle name cannot start with an underscore). The
  requested shape is written as the source writes it: the row count from
  \<^verbatim>\<open>upscale_factor\<close>, the column count from \<^verbatim>\<open>upscale_factor_y\<close>, each the rounding to an
  integer of a floating-point product. Both quotients of the transform are true
  divisions of integers, which yield the float nearest to the quotient and raise
  \<^verbatim>\<open>ZeroDivisionError\<close> on a zero divisor.
\<close>

definition resample_core ::
  "(rat \<Rightarrow> rat) \<Rightarrow> ('src \<Rightarrow> read_request \<Rightarrow> 'px option) \<Rightarrow> ('src, 'm) raster \<Rightarrow>
     Resampling \<Rightarrow> rat \<Rightarrow> rat option \<Rightarrow>
     (error + 'px image \<times> 'm meta) \<times> read_request list" where
  "resample_core fl rd raster resampling_method upscale_factor upscale_factor_y =
     (let upscale_factor_y' =
            (case upscale_factor_y of None \<Rightarrow> upscale_factor | Some y \<Rightarrow> y);
          out_shape =
            (r_count raster,
             py_round (fl (of_nat (r_height raster) * upscale_factor)),
             py_round (fl (of_nat (r_width raster) * upscale_factor_y')))
      in case raster_read rd raster out_shape resampling_method of
           (Inl e, reads) \<Rightarrow> (Inl e, reads)
         | (Inr out_image, reads) \<Rightarrow>
             if img_width out_image = 0 \<or> img_height out_image = 0
             then (Inl ZeroDivisionError, reads)
             else
               let out_transform =
                     affine_mul fl (r_transform raster)
                       (affine_scale
                          (fl (of_nat (r_width raster) / of_int (img_width out_image)))
                          (fl (of_nat (r_height raster) / of_int (img_height out_image))));
                   out_meta =
                     (raster_meta raster)
                       \<lparr>m_transform := out_transform,
                        m_width := img_width out_image,
                        m_height := img_height out_image,
                        m_nodata := Some 0\<rparr>
               in (Inr (out_image, out_meta), reads))"

definition resample ::
  "(rat \<Rightarrow> rat) \<Rightarrow> ('src \<Rightarrow> read_request \<Rightarrow> 'px option) \<Rightarrow> ('src, 'm) raster \<Rightarrow> rat \<Rightarrow>
     rat option \<Rightarrow> Resampling \<Rightarrow> (error + 'px image \<times> 'm meta) \<times> read_request list" where
  "resample fl rd raster upscale_factor upscale_factor_y resampling_method =
     (if \<not> check_numeric_value_sign upscale_factor
      then (Inl NumericValueSignException, [])
      else resample_core fl rd raster resampling_method upscale_factor upscale_factor_y)"

section \<open>Tabular data\<close>

text \<open>
  A pandas \<^verbatim>\<open>DataFrame\<close>: its row labels and its columns in order, each column a label
  with its values. A column label is a string, or a position when the frame was built from
  an array. In a well-formed frame every column is as long as the index.
\<close>

datatype label = Name string | Pos nat

record 'a frame =
  df_index :: "nat list"
  df_columns :: "(label \<times> 'a list) list"

definition wf_frame :: "'a frame \<Rightarrow> bool" where
  "wf_frame df \<longleftrightarrow> list_all (\<lambda>p. length (snd p) = length (df_index df)) (df_columns df)"

text \<open>
  A numpy \<^verbatim>\<open>ndarray\<close>: its shape and its elements in row-major order. Its \<^verbatim>\<open>size\<close> is the
  product of the shape; \<^verbatim>\<open>len\<close> is the extent of the first axis and raises \<^verbatim>\<open>TypeError\<close>
  on an array without axes.
\<close>

record 'a ndarray =
  nd_shape :: "nat list"
  nd_data :: "'a list"

definition nd_size :: "'a ndarray \<Rightarrow> nat" where
  "nd_size arr = prod_list (nd_shape arr)"

definition nd_len :: "'a ndarray \<Rightarrow> error + nat" where
  "nd_len arr = (case nd_shape arr of [] \<Rightarrow> Inl TypeError | n # _ \<Rightarrow> Inr n)"

text \<open>The two input forms, \<^verbatim>\<open>Union[pd.DataFrame, np.ndarray]\<close>.\<close>

datatype ('f, 'a) data = DataFrame 'f | Ndarray "'a ndarray"

text \<open>
  \<^verbatim>\<open>df.columns\<close>, \<^verbatim>\<open>df.empty\<close> (some axis has length zero), \<^verbatim>\<open>df[column]\<close> for one
  label (\<^verbatim>\<open>KeyError\<close> when it is missing) and \<^verbatim>\<open>df[columns]\<close> for a list of labels,
  which yields the columns carrying each label, in the order of the list. For one label
  the values are those of the first column carrying it; where a label is carried by
  several columns pandas yields all of them, over the same rows.
\<close>

definition df_labels :: "'a frame \<Rightarrow> label list" where
  "df_labels df = map fst (df_columns df)"

definition df_empty :: "'a frame \<Rightarrow> bool" where
  "df_empty df \<longleftrightarrow> df_columns df = [] \<or> df_index df = []"

definition getitem :: "'a frame \<Rightarrow> label \<Rightarrow> 'a list option" where
  "getitem df column = map_of (df_columns df) column"

definition getitem_list :: "'a frame \<Rightarrow> label list \<Rightarrow> 'a frame" where
  "getitem_list df columns =
     \<lparr>df_index = df_index df,
      df_columns = concat (map (\<lambda>c. filter (\<lambda>p. fst p = c) (df_columns df)) columns)\<rparr>"

text \<open>
  Modelled from the spec: the checks of \<^verbatim>\<open>eis_toolkit.utilities.checks.dataframe\<close>
  (\<^verbatim>\<open>eis_toolkit.checks.dataframe\<close> in the encoding module) are imported by the source
  but are not part of it. The spec names them "empty-dataframe checks" and "column-type
  checks" and requires that a selected column "must exist in the table":
  \<^verbatim>\<open>check_empty_dataframe\<close> holds of an empty table, \<^verbatim>\<open>check_columns_valid\<close> holds when
  every selected label is a column of the table, \<^verbatim>\<open>check_columns_numeric\<close> holds when
  every selected column is of a numeric type.
\<close>

definition check_empty_dataframe :: "'a frame \<Rightarrow> bool" where
  "check_empty_dataframe df \<longleftrightarrow> df_empty df"

definition check_columns_valid :: "'a frame \<Rightarrow> label list \<Rightarrow> bool" where
  "check_columns_valid df columns \<longleftrightarrow> list_all (\<lambda>c. c \<in> set (df_labels df)) columns"

section \<open>Statistical tests (\<^verbatim>\<open>exploratory_analyses/statistical_tests.py\<close>)\<close>

text \<open>
  The values of a table or array given to the statistical tests: a number, the missing
  value \<^verbatim>\<open>NaN\<close>, or a string. A column is numeric when it holds no string.
\<close>

datatype cell = Num rat | NaN | Str string

definition is_numeric_dtype :: "cell list \<Rightarrow> bool" where
  "is_numeric_dtype xs \<longleftrightarrow> list_all (\<lambda>x. case x of Str _ \<Rightarrow> False | _ \<Rightarrow> True) xs"

definition check_columns_numeric :: "cell frame \<Rightarrow> label list \<Rightarrow> bool" where
  "check_columns_numeric df columns \<longleftrightarrow>
     list_all (\<lambda>p. is_numeric_dtype (snd p)) (df_columns (getitem_list df columns))"

text \<open>
  \<^verbatim>\<open>df.dropna()\<close>: the rows in which some column holds \<^verbatim>\<open>NaN\<close> are removed from the index
  and from every column. \<open>notna_rows\<close> is the mask of the rows that stay.
\<close>

definition notna_rows :: "cell frame \<Rightarrow> bool list" where
  "notna_rows df =
     foldr (\<lambda>p keep. map (\<lambda>(x, k). k \<and> x \<noteq> NaN) (zip (snd p) keep)) (df_columns df)
       (replicate (length (df_index df)) True)"

definition take_rows :: "bool list \<Rightarrow> 'b list \<Rightarrow> 'b list" where
  "take_rows keep xs = map snd (filter fst (zip keep xs))"

definition dropna :: "cell frame \<Rightarrow> cell frame" where
  "dropna df =
     (let keep = notna_rows df in
      \<lparr>df_index = take_rows keep (df_index df),
       df_columns = map (\<lambda>(l, xs). (l, take_rows keep xs)) (df_columns df)\<rparr>)"

subsection \<open>\<^verbatim>\<open>normality_test\<close>\<close>

text \<open>
  The result is a dictionary from column labels to statistics for a table and a single
  statistic for an array. \<^verbatim>\<open>scipy.stats.shapiro\<close> is the parameter \<open>shapiro\<close>: it yields
  the pair of statistic and p-value, or \<open>None\<close> when scipy raises.
\<close>

datatype 's statistics = Stat_dict "label \<rightharpoonup> 's" | Stat_tuple 's

text \<open>The loop over the columns, with the dictionary built so far.\<close>

fun test_columns ::
  "(cell list \<Rightarrow> 's option) \<Rightarrow> cell frame \<Rightarrow> label list \<Rightarrow> (label \<rightharpoonup> 's) \<Rightarrow>
     error + (label \<rightharpoonup> 's)" where
  "test_columns shapiro data [] statistics = Inr statistics"
| "test_columns shapiro data (column # columns) statistics =
     (case getitem data column of
        None \<Rightarrow> Inl KeyError
      | Some xs \<Rightarrow>
          if 5000 < length xs then Inl SampleSizeExceededException
          else (case shapiro xs of
                  None \<Rightarrow> Inl LibraryError
                | Some st \<Rightarrow> test_columns shapiro data columns (statistics(column \<mapsto> st))))"

text \<open>
  \<^verbatim>\<open>np.isnan\<close> raises \<^verbatim>\<open>TypeError\<close> on an array that is not numeric; indexing with the
  negated mask keeps the elements that are not \<^verbatim>\<open>NaN\<close>, as a flat array.
\<close>

definition normality_test ::
  "(cell list \<Rightarrow> 's option) \<Rightarrow> (cell frame, cell) data \<Rightarrow> string list option \<Rightarrow>
     error + 's statistics" where
  "normality_test shapiro data columns =
     (case data of
        DataFrame df \<Rightarrow>
          if check_empty_dataframe df then Inl EmptyDataException
          else
            (case columns of
               Some cols \<Rightarrow>
                 if \<not> check_columns_valid df (map Name cols) then Inl InvalidColumnException
                 else if \<not> check_columns_numeric df (map Name cols)
                 then Inl NonNumericDataException
                 else map_sum id Stat_dict
                        (test_columns shapiro (dropna (getitem_list df (map Name cols)))
                           (map Name cols) Map.empty)
             | None \<Rightarrow>
                 if \<not> check_columns_numeric df (df_labels df) then Inl NonNumericDataException
                 else map_sum id Stat_dict (test_columns shapiro df (df_labels df) Map.empty))
      | Ndarray arr \<Rightarrow>
          if nd_size arr = 0 then Inl EmptyDataException
          else
            (case nd_len arr of
               Inl e \<Rightarrow> Inl e
             | Inr n \<Rightarrow>
                 if 5000 < n then Inl SampleSizeExceededException
                 else if \<not> is_numeric_dtype (nd_data arr) then Inl TypeError
                 else
                   (case shapiro (filter (\<lambda>x. x \<noteq> NaN) (nd_data arr)) of
                      None \<Rightarrow> Inl LibraryError
                    | Some st \<Rightarrow> Inr (Stat_tuple st))))"

subsection \<open>\<^verbatim>\<open>correlation_matrix\<close> and \<^verbatim>\<open>covariance_matrix\<close>\<close>

datatype correlation_method = pearson | kendall | spearman

text \<open>
  The matrix computations \<^verbatim>\<open>data.corr\<close> and \<^verbatim>\<open>data.cov\<close> are pandas'. They are the
  parameters \<open>corr\<close> and \<open>cov\<close>, \<open>None\<close> when pandas raises, and every call of one of them
  is recorded.
\<close>

datatype matrix_call = Corr correlation_method "int option" | Cov "int option" int

definition correlation_matrix ::
  "(cell frame \<Rightarrow> correlation_method \<Rightarrow> int option \<Rightarrow> 'mat option) \<Rightarrow> cell frame \<Rightarrow>
     correlation_method \<Rightarrow> int option \<Rightarrow> (error + 'mat) \<times> matrix_call list" where
  "correlation_matrix corr data correlation_method min_periods =
     (if check_empty_dataframe data then (Inl EmptyDataFrameException, [])
      else if \<not> check_columns_numeric data (df_labels data)
      then (Inl NonNumericDataException, [])
      else if correlation_method = kendall \<and> min_periods \<noteq> None
      then (Inl InvalidParameterValueException, [])
      else
        (case corr data correlation_method min_periods of
           None \<Rightarrow> (Inl LibraryError, [Corr correlation_method min_periods])
         | Some matrix \<Rightarrow> (Inr matrix, [Corr correlation_method min_periods])))"

text \<open>
  \<^verbatim>\<open>if min_periods and min_periods < 0\<close>: an absent or zero \<^verbatim>\<open>min_periods\<close> is falsy.
\<close>

definition covariance_matrix ::
  "(cell frame \<Rightarrow> int option \<Rightarrow> int \<Rightarrow> 'mat option) \<Rightarrow> cell frame \<Rightarrow> int option \<Rightarrow> int \<Rightarrow>
     (error + 'mat) \<times> matrix_call list" where
  "covariance_matrix cov data min_periods delta_degrees_of_freedom =
     (if check_empty_dataframe data then (Inl EmptyDataFrameException, [])
      else if \<not> check_columns_numeric data (df_labels data)
      then (Inl NonNumericDataException, [])
      else if delta_degrees_of_freedom < 0 then (Inl InvalidParameterValueException, [])
      else if (case min_periods of None \<Rightarrow> False | Some p \<Rightarrow> p \<noteq> 0 \<and> p < 0)
      then (Inl InvalidParameterValueException, [])
      else
        (case cov data min_periods delta_degrees_of_freedom of
           None \<Rightarrow> (Inl LibraryError, [Cov min_periods delta_degrees_of_freedom])
         | Some matrix \<Rightarrow> (Inr matrix, [Cov min_periods delta_degrees_of_freedom])))"

section \<open>Pairwise logratio (\<^verbatim>\<open>transformations/coda/pairwise.py\<close>)\<close>

text \<open>
  Modelled from the spec: \<^verbatim>\<open>single_pairwise_logratio\<close> is exercised by the tests of the
  repository but its module is not part of the source. The spec describes a "logratio-style
  transform" of two operands that "with a zero operand always fails with an
  invalid-parameter error" and that maps two equal positive values to \<open>0\<close>: the natural
  logarithm of the quotient, guarded against a zero numerator or denominator.
\<close>

definition single_pairwise_logratio :: "real \<Rightarrow> real \<Rightarrow> error + real" where
  "single_pairwise_logratio numerator denominator =
     (if numerator = 0 \<or> denominator = 0 then Inl InvalidParameterValueException
      else Inr (ln (numerator / denominator)))"

section \<open>One-hot encoding (\<^verbatim>\<open>transformations/one_hot_encoding.py\<close>)\<close>

subsection \<open>Objects\<close>

text \<open>
  Tables are objects with identity: the caller keeps a reference to the table it passes
  in. The store holds a table at every address; the addresses below \<open>h_next\<close> are the
  allocated ones. Every pandas operation the source calls (\<^verbatim>\<open>copy\<close>, \<^verbatim>\<open>df[columns]\<close>,
  \<^verbatim>\<open>drop\<close> without \<^verbatim>\<open>inplace\<close>, the \<^verbatim>\<open>DataFrame\<close> constructors, \<^verbatim>\<open>concat\<close>) builds a
  new object, so each is an allocation.
\<close>

record 'a heap =
  h_next :: nat
  h_objs :: "nat \<Rightarrow> 'a frame"

definition alloc :: "'a frame \<Rightarrow> 'a heap \<Rightarrow> nat \<times> 'a heap" where
  "alloc df h = (h_next h, \<lparr>h_next = Suc (h_next h), h_objs = (h_objs h)(h_next h := df)\<rparr>)"

text \<open>
  \<^verbatim>\<open>pd.DataFrame(array)\<close>: a one-dimensional array is a single column, a two-dimensional
  one a column per second-axis position; the labels are positions. Other ranks are
  refused by pandas. In an array whose data is as long as its size every index below is
  in range.
\<close>

definition frame_of_array :: "'a ndarray \<Rightarrow> error + 'a frame" where
  "frame_of_array arr =
     (case nd_shape arr of
        [n] \<Rightarrow> Inr \<lparr>df_index = [0..<n], df_columns = [(Pos 0, nd_data arr)]\<rparr>
      | [n, m] \<Rightarrow>
          Inr \<lparr>df_index = [0..<n],
               df_columns =
                 map (\<lambda>j. (Pos j, map (\<lambda>i. nd_data arr ! (i * m + j)) [0..<n])) [0..<m]\<rparr>
      | _ \<Rightarrow> Inl LibraryError)"

text \<open>
  \<^verbatim>\<open>df.drop(labels, axis=1)\<close> removes every column carrying one of the labels, and
  \<^verbatim>\<open>pd.concat([df, encoded_df], axis=1)\<close> of two tables over the same index puts the
  columns of the second after those of the first.
\<close>

definition df_drop :: "'a frame \<Rightarrow> label list \<Rightarrow> 'a frame" where
  "df_drop df labels =
     \<lparr>df_index = df_index df,
      df_columns = filter (\<lambda>p. fst p \<notin> set labels) (df_columns df)\<rparr>"

definition df_concat :: "'a frame \<Rightarrow> 'a frame \<Rightarrow> 'a frame" where
  "df_concat df encoded_df =
     \<lparr>df_index = df_index df, df_columns = df_columns df @ df_columns encoded_df\<rparr>"

subsection \<open>The encoder\<close>

text \<open>
  \<^verbatim>\<open>sklearn.preprocessing.OneHotEncoder\<close>, as its documentation describes
  \<^verbatim>\<open>fit_transform\<close> when no frequency or category limit is set: the categories of a
  feature are its distinct values in ascending order; \<^verbatim>\<open>drop="first"\<close> leaves out the
  first category of every feature and \<^verbatim>\<open>drop="if_binary"\<close> that of a feature with exactly
  two categories; every category that stays gives one indicator column, named by the
  source's \<^verbatim>\<open>feature_name_combiner\<close>. The values of a table are of one ordered type
  \<open>'a\<close>; \<open>str_cat\<close> is Python's \<^verbatim>\<open>str\<close> on them and \<open>ind\<close> writes an indicator in the output
  type \<^verbatim>\<open>out_dtype\<close>. With a limit set, sklearn's grouping of infrequent categories is
  the parameter \<open>grp\<close>. \<^verbatim>\<open>handle_unknown\<close> only concerns values met after fitting.
  The encoder may refuse its arguments or the table and raise; the source does not
  catch that. When it does so is the parameter \<open>refuses\<close>, given the arguments of the
  encoder and the table to encode.
\<close>

datatype drop_category = first | if_binary

datatype handle_unknown = error_unknown | ignore | infrequent_if_exist

fun digits :: "nat \<Rightarrow> string" where
  "digits n =
     (if n < 10 then [''0123456789'' ! n]
      else digits (n div 10) @ [''0123456789'' ! (n mod 10)])"

fun str_label :: "label \<Rightarrow> string" where
  "str_label (Name s) = s"
| "str_label (Pos n) = digits n"

definition categories :: "'a::linorder list \<Rightarrow> 'a list" where
  "categories xs = sort (remdups xs)"

definition kept_categories :: "drop_category option \<Rightarrow> 'a list \<Rightarrow> 'a list" where
  "kept_categories drop_category cats =
     (case drop_category of
        None \<Rightarrow> cats
      | Some first \<Rightarrow> tl cats
      | Some if_binary \<Rightarrow> if length cats = 2 then tl cats else cats)"

definition feature_name_combiner :: "('a \<Rightarrow> string) \<Rightarrow> label \<Rightarrow> 'a \<Rightarrow> label" where
  "feature_name_combiner str_cat feature category =
     Name (str_label feature @ ''_'' @ str_cat category)"

definition encode_feature ::
  "('a::linorder \<Rightarrow> string) \<Rightarrow> (bool \<Rightarrow> 'a) \<Rightarrow> drop_category option \<Rightarrow> label \<times> 'a list \<Rightarrow>
     (label \<times> 'a list) list" where
  "encode_feature str_cat ind drop_category feature =
     map (\<lambda>c. (feature_name_combiner str_cat (fst feature) c,
               map (\<lambda>x. ind (x = c)) (snd feature)))
       (kept_categories drop_category (categories (snd feature)))"

definition fit_transform ::
  "(drop_category option \<Rightarrow> handle_unknown \<Rightarrow> rat option \<Rightarrow> nat option \<Rightarrow> 'a frame \<Rightarrow>
      bool) \<Rightarrow>
   (drop_category option \<Rightarrow> rat option \<Rightarrow> nat option \<Rightarrow> label \<times> 'a list \<Rightarrow>
      (label \<times> 'a list) list) \<Rightarrow>
   ('a::linorder \<Rightarrow> string) \<Rightarrow> (bool \<Rightarrow> 'a) \<Rightarrow> drop_category option \<Rightarrow> handle_unknown \<Rightarrow>
     rat option \<Rightarrow> nat option \<Rightarrow> 'a frame \<Rightarrow> error + (label \<times> 'a list) list" where
  "fit_transform refuses grp str_cat ind drop_category handle_unknown min_frequency
       max_categories transform_df =
     (if refuses drop_category handle_unknown min_frequency max_categories transform_df
      then Inl LibraryError
      else
        Inr (concat
          (map (\<lambda>feature.
                  if min_frequency = None \<and> max_categories = None
                  then encode_feature str_cat ind drop_category feature
                  else grp drop_category min_frequency max_categories feature)
             (df_columns transform_df))))"

subsection \<open>\<^verbatim>\<open>one_hot_encode\<close>\<close>

text \<open>
  The result is a reference to a new table for a table input, and the encoded matrix
  (its columns, with the flag of the sparse representation) for an array input. The
  sparse and the dense table of the source hold the same columns and are not told apart.
\<close>

datatype 'a encoded = EncodedFrame nat | EncodedMatrix bool "'a list list"

definition one_hot_encode ::
  "(drop_category option \<Rightarrow> handle_unknown \<Rightarrow> rat option \<Rightarrow> nat option \<Rightarrow> 'a frame \<Rightarrow>
      bool) \<Rightarrow>
   (drop_category option \<Rightarrow> rat option \<Rightarrow> nat option \<Rightarrow> label \<times> 'a list \<Rightarrow>
      (label \<times> 'a list) list) \<Rightarrow>
   ('a::linorder \<Rightarrow> string) \<Rightarrow> (bool \<Rightarrow> 'a) \<Rightarrow> 'a heap \<Rightarrow> (nat, 'a) data \<Rightarrow>
     string list option \<Rightarrow> bool \<Rightarrow> drop_category option \<Rightarrow> bool \<Rightarrow> handle_unknown \<Rightarrow>
     rat option \<Rightarrow> nat option \<Rightarrow> (error + 'a encoded) \<times> 'a heap" where
  "one_hot_encode refuses grp str_cat ind h data columns drop_encoded_columns drop_category
       sparse_output handle_unknown min_frequency max_categories =
     (let is_dataframe = (case data of DataFrame _ \<Rightarrow> True | Ndarray _ \<Rightarrow> False) in
      case (case data of
              DataFrame r \<Rightarrow>
                if df_empty (h_objs h r) then Inl EmptyDataFrameException
                else Inr (h_objs h r)
            | Ndarray arr \<Rightarrow>
                if nd_size arr = 0 then Inl InvalidDatasetException
                else frame_of_array arr) of
        Inl e \<Rightarrow> (Inl e, h)
      | Inr new_df \<Rightarrow>
          let (df, h1) = alloc new_df h in
          case (case columns of
                  Some cols \<Rightarrow>
                    if \<not> check_columns_valid (h_objs h1 df) (map Name cols)
                    then Inl InvalidColumnException
                    else Inr (alloc (getitem_list (h_objs h1 df) (map Name cols)) h1)
                | None \<Rightarrow> Inr (df, h1)) of
            Inl e \<Rightarrow> (Inl e, h1)
          | Inr (transform_df, h2) \<Rightarrow>
              (case fit_transform refuses grp str_cat ind drop_category handle_unknown
                      min_frequency max_categories (h_objs h2 transform_df) of
                 Inl e \<Rightarrow> (Inl e, h2)
               | Inr encoded_data \<Rightarrow>
                   let encoded_cols = map fst encoded_data
                   in if is_dataframe then
                        let (encoded_df, h3) =
                              alloc \<lparr>df_index = df_index (h_objs h2 df),
                                     df_columns = zip encoded_cols (map snd encoded_data)\<rparr> h2;
                            (df', h4) =
                              (if drop_encoded_columns
                               then alloc (df_drop (h_objs h3 df)
                                             (df_labels (h_objs h3 transform_df))) h3
                               else (df, h3));
                            (result, h5) =
                              alloc (df_concat (h_objs h4 df') (h_objs h4 encoded_df)) h4
                        in (Inr (EncodedFrame result), h5)
                      else (Inr (EncodedMatrix sparse_output (map snd encoded_data)), h2)))"

section \<open>Expected counts and sample inputs\<close>

text \<open>
  The number of indicator columns the specification expects of a feature with \<open>k\<close>
  categories: \<open>k\<close>, one less under "drop first", and under "drop if binary" one less
  exactly when \<open>k\<close> is two.
\<close>

definition expected_indicators :: "drop_category option \<Rightarrow> nat \<Rightarrow> nat" where
  "expected_indicators drop_category k =
     (case drop_category of
        None \<Rightarrow> k
      | Some first \<Rightarrow> k - 1
      | Some if_binary \<Rightarrow> if k = 2 then 1 else k)"

text \<open>
  What the properties below ask of the rounding to the nearest float: zero is a float,
  and the result of a rounding is a float, which rounding leaves alone. The rounding is
  exact on a number when that number is a float.
\<close>

definition is_rounding :: "(rat \<Rightarrow> rat) \<Rightarrow> bool" where
  "is_rounding fl \<longleftrightarrow> fl 0 = 0 \<and> (\<forall>x. fl (fl x) = fl x)"

definition exact_on :: "(rat \<Rightarrow> rat) \<Rightarrow> rat list \<Rightarrow> bool" where
  "exact_on fl xs \<longleftrightarrow> list_all (\<lambda>x. fl x = x) xs"

text \<open>
  Concrete inputs on which the results below are evaluated. On the rasters and factors
  used here every number that the stated results depend on is a small whole number or a
  multiple of a half, which floating point computes without rounding error, so the
  rounding is the identity \<open>no_rounding\<close> there.
\<close>

definition no_rounding :: "rat \<Rightarrow> rat" where
  "no_rounding x = x"

definition never_refuses ::
  "drop_category option \<Rightarrow> handle_unknown \<Rightarrow> rat option \<Rightarrow> nat option \<Rightarrow> int frame \<Rightarrow> bool" where
  "never_refuses d hu mf mc df = False"

definition read_ok :: "unit \<Rightarrow> read_request \<Rightarrow> unit option" where
  "read_ok src req = Some ()"

definition north_up :: affine where
  "north_up = \<lparr>aff_a = 1, aff_b = 0, aff_c = 0, aff_d = 0, aff_e = - 1, aff_f = 0\<rparr>"

definition raster_10x20 :: "(unit, unit) raster" where
  "raster_10x20 =
     \<lparr>r_count = 1, r_height = 20, r_width = 10, r_transform = north_up,
      r_nodata = Some (- 9999), r_other = (), r_source = ()\<rparr>"

definition raster_3x3 :: "(unit, unit) raster" where
  "raster_3x3 =
     \<lparr>r_count = 1, r_height = 3, r_width = 3, r_transform = north_up,
      r_nodata = None, r_other = (), r_source = ()\<rparr>"

definition shapiro_ok :: "cell list \<Rightarrow> unit option" where
  "shapiro_ok xs = Some ()"

definition df_ones :: "cell frame" where
  "df_ones = \<lparr>df_index = [0..<5001], df_columns = [(Name ''a'', replicate 5001 (Num 1))]\<rparr>"

definition df_strings :: "cell frame" where
  "df_strings =
     \<lparr>df_index = [0..<5001], df_columns = [(Name ''a'', replicate 5001 (Str ''x''))]\<rparr>"

definition df_gap :: "cell frame" where
  "df_gap =
     \<lparr>df_index = [0, 1, 2],
      df_columns = [(Name ''a'', [Num 1, NaN, Num 2]), (Name ''b'', [Num 3, Num 4, Num 5])]\<rparr>"

definition df_gap_5001 :: "cell frame" where
  "df_gap_5001 =
     \<lparr>df_index = [0..<5001], df_columns = [(Name ''a'', NaN # replicate 5000 (Num 1))]\<rparr>"

definition arr_5000 :: "cell ndarray" where
  "arr_5000 = \<lparr>nd_shape = [5000], nd_data = replicate 5000 (Num 1)\<rparr>"

definition arr_5001 :: "cell ndarray" where
  "arr_5001 = \<lparr>nd_shape = [5001], nd_data = replicate 5001 (Num 1)\<rparr>"

definition arr_2x3000 :: "cell ndarray" where
  "arr_2x3000 = \<lparr>nd_shape = [2, 3000], nd_data = replicate 6000 (Num 1)\<rparr>"

definition df_none :: "cell frame" where
  "df_none = \<lparr>df_index = [], df_columns = []\<rparr>"

definition corr_ok :: "cell frame \<Rightarrow> correlation_method \<Rightarrow> int option \<Rightarrow> unit option" where
  "corr_ok df cm mp = Some ()"

definition cov_ok :: "cell frame \<Rightarrow> int option \<Rightarrow> int \<Rightarrow> unit option" where
  "cov_ok df mp ddof = Some ()"

definition df_cats :: "int frame" where
  "df_cats =
     \<lparr>df_index = [0, 1, 2, 3],
      df_columns = [(Name ''a'', [1, 2, 1, 3]), (Name ''b'', [5, 5, 6, 6])]\<rparr>"

definition heap_cats :: "int heap" where
  "heap_cats = \<lparr>h_next = 1, h_objs = (\<lambda>a. df_cats)\<rparr>"

definition grp_none ::
  "drop_category option \<Rightarrow> rat option \<Rightarrow> nat option \<Rightarrow> label \<times> int list \<Rightarrow>
     (label \<times> int list) list" where
  "grp_none d mf mc feature = []"

definition str_int :: "int \<Rightarrow> string" where
  "str_int i = (if i < 0 then ''-'' @ digits (nat (- i)) else digits (nat i))"

definition ind_int :: "bool \<Rightarrow> int" where
  "ind_int b = (if b then 1 else 0)"

section \<open>Properties of the resampling\<close>

lemma py_round_of_int: "py_round (of_int k) = k"
  by (simp add: py_round_def)

lemma floor_three_halves: "\<lfloor>3 / 2 :: rat\<rfloor> = 1"
  by (rule floor_unique) simp_all

lemma py_round_three_halves: "py_round (3 / 2) = 2"
  by (simp add: py_round_def floor_three_halves)

lemma py_round_Ints: "x \<in> \<int> \<Longrightarrow> of_int (py_round x) = x"
  by (auto simp: Ints_def py_round_of_int)

lemma is_rounding_no_rounding: "is_rounding no_rounding"
  by (simp add: is_rounding_def no_rounding_def)

lemma pixel_size_scale:
  assumes "is_rounding fl"
  shows "pixel_size (affine_mul fl t (affine_scale sx sy)) =
     (fl (aff_a t * sx), - fl (aff_e t * sy))"
  using assms by (simp add: is_rounding_def pixel_size_def affine_mul_def affine_scale_def)

lemma resample_core_returns:
  assumes "resample_core fl rd r m s fy = (Inr (img, meta), reads)"
  shows "img_shape img =
           (r_count r, py_round (fl (of_nat (r_height r) * s)),
            py_round (fl (of_nat (r_width r) * (case fy of None \<Rightarrow> s | Some y \<Rightarrow> y))))"
    and "img_width img \<noteq> 0" and "img_height img \<noteq> 0"
    and "meta = (raster_meta r)
           \<lparr>m_transform :=
              affine_mul fl (r_transform r)
                (affine_scale (fl (of_nat (r_width r) / of_int (img_width img)))
                   (fl (of_nat (r_height r) / of_int (img_height img)))),
            m_width := img_width img, m_height := img_height img, m_nodata := Some 0\<rparr>"
    and "reads = [(img_shape img, m)]"
  using assms
  by (auto simp: resample_core_def raster_read_def Let_def split: option.splits if_splits)

lemma resample_positive:
  "0 < s \<Longrightarrow> resample fl rd r s fy m = resample_core fl rd r m s fy"
  by (simp add: resample_def check_numeric_value_sign_def)

lemma resample_returns:
  assumes "0 < s" and "fst (resample fl rd r s fy m) = Inr (img, meta)"
  shows "\<exists>reads. resample_core fl rd r m s fy = (Inr (img, meta), reads)"
  using assms by (cases "resample_core fl rd r m s fy") (simp add: resample_positive)

text \<open>
  What the code does with the two factors: the rows of the returned grid come from
  \<^verbatim>\<open>upscale_factor\<close> and its columns from \<^verbatim>\<open>upscale_factor_y\<close>.
\<close>

lemma resample_shape:
  assumes "0 < s" and "fst (resample fl rd r s fy m) = Inr (img, meta)"
  shows "img_height img = py_round (fl (of_nat (r_height r) * s))"
    and "img_width img =
           py_round (fl (of_nat (r_width r) * (case fy of None \<Rightarrow> s | Some y \<Rightarrow> y)))"
proof -
  from assms obtain reads where "resample_core fl rd r m s fy = (Inr (img, meta), reads)"
    using resample_returns by blast
  from resample_core_returns(1) [OF this]
  show "img_height img = py_round (fl (of_nat (r_height r) * s))"
    and "img_width img =
           py_round (fl (of_nat (r_width r) * (case fy of None \<Rightarrow> s | Some y \<Rightarrow> y)))"
    by (simp_all add: img_height_def img_width_def)
qed

text \<open>
  C1. The documentation of \<^verbatim>\<open>resample\<close> gives \<^verbatim>\<open>upscale_factor\<close> to the width and
  \<^verbatim>\<open>upscale_factor_y\<close> to the height. On a raster 10 wide and 20 high, with the factors
  2 and 3, the width should be \<open>round (10 * 2) = 20\<close> and the height \<open>round (20 * 3) = 60\<close>.
  The code returns a grid of shape (bands, rows, columns) \<open>(1, 40, 30)\<close>: 30 wide and 40
  high, the factors exchanged. The products are whole numbers, which floating point
  computes exactly.
\<close>

theorem resample_factors_exchanged:
  "map_sum id (img_shape \<circ> fst)
     (fst (resample no_rounding read_ok raster_10x20 2 (Some 3) bilinear)) =
   Inr (1, 40, 30)"
  by (simp add: resample_def resample_core_def raster_read_def check_numeric_value_sign_def
      read_ok_def raster_10x20_def py_round_def Let_def img_width_def img_height_def
      no_rounding_def)

text \<open>
  C2. A scale factor that is zero or negative makes \<^verbatim>\<open>resample\<close> fail with
  \<^verbatim>\<open>NumericValueSignException\<close>, and the log of reads is empty: the raster source has
  not been read.
\<close>

theorem resample_rejects_nonpositive:
  "s \<le> 0 \<Longrightarrow> resample fl rd r s fy m = (Inl NumericValueSignException, [])"
  by (simp add: resample_def check_numeric_value_sign_def)

theorem resample_rejects_nonpositive_witness:
  "(0::rat) \<le> 0 \<and>
   resample no_rounding read_ok raster_10x20 0 None bilinear =
     (Inl NumericValueSignException, []) \<and>
   (- 1::rat) \<le> 0 \<and>
   resample no_rounding read_ok raster_10x20 (- 1) (Some 2) cubic =
     (Inl NumericValueSignException, [])"
  using resample_rejects_nonpositive [of 0 no_rounding read_ok raster_10x20 None bilinear]
    resample_rejects_nonpositive [of "- 1" no_rounding read_ok raster_10x20 "Some 2" cubic]
  by simp

text \<open>
  C3. When \<^verbatim>\<open>resample\<close> with a positive factor returns an image and a metadata
  record, the transform of the record is the input transform times the scaling by old
  width over new width and old height over new height (the new ones being those of the
  returned image), its nodata value is \<open>0\<close> whatever the source's was, its width and
  height are those of the returned image, and the other entries are those of the source.
\<close>

theorem resample_metadata:
  assumes "0 < s" and "fst (resample fl rd r s fy m) = Inr (img, meta)"
  shows "m_transform meta =
           affine_mul fl (r_transform r)
             (affine_scale (fl (of_nat (r_width r) / of_int (img_width img)))
                (fl (of_nat (r_height r) / of_int (img_height img)))) \<and>
         m_nodata meta = Some 0 \<and>
         m_width meta = img_width img \<and> m_height meta = img_height img \<and>
         img_width img \<noteq> 0 \<and> img_height img \<noteq> 0 \<and>
         m_count meta = r_count r \<and> m_other meta = r_other r"
proof -
  from assms obtain reads where "resample_core fl rd r m s fy = (Inr (img, meta), reads)"
    using resample_returns by blast
  from resample_core_returns(2,3,4) [OF this] show ?thesis
    by (simp add: raster_meta_def)
qed

theorem resample_metadata_witness:
  "(0::rat) < 2 \<and>
   \<not> isl (fst (resample no_rounding read_ok raster_10x20 2 None bilinear)) \<and>
   m_nodata (snd (projr (fst (resample no_rounding read_ok raster_10x20 2 None bilinear)))) =
     Some 0 \<and>
   m_width (snd (projr (fst (resample no_rounding read_ok raster_10x20 2 None bilinear)))) =
     20 \<and>
   m_height (snd (projr (fst (resample no_rounding read_ok raster_10x20 2 None bilinear)))) =
     40 \<and>
   pixel_size
     (m_transform (snd (projr (fst (resample no_rounding read_ok raster_10x20 2 None bilinear)))))
     = (1 / 2, 1 / 2)"
proof -
  have "\<exists>px. fst (resample no_rounding read_ok raster_10x20 2 None bilinear) =
      Inr (\<lparr>img_shape = (1, 40, 20), img_pixels = ()\<rparr>, px)"
    by (simp add: resample_def resample_core_def raster_read_def check_numeric_value_sign_def
        read_ok_def raster_10x20_def py_round_def Let_def img_width_def img_height_def
        no_rounding_def)
  then obtain meta where
    e: "fst (resample no_rounding read_ok raster_10x20 2 None bilinear) =
      Inr (\<lparr>img_shape = (1, 40, 20), img_pixels = ()\<rparr>, meta)"
    by blast
  have p: "(0::rat) < 2" by simp
  from resample_metadata [OF p e]
  have "m_nodata meta = Some 0" and "m_width meta = 20" and "m_height meta = 40"
    and "pixel_size (m_transform meta) = (1 / 2, 1 / 2)"
    by (simp_all add: img_width_def img_height_def raster_10x20_def north_up_def
        pixel_size_def affine_mul_def affine_scale_def no_rounding_def)
  then show ?thesis
    by (simp add: e)
qed

text \<open>
  C4, as the specification states it: the output pixel size is the input pixel size
  divided by the factor. On a raster 3 wide and 3 high with pixel size 1 and the factor
  1/2 the new grid is \<open>round (3/2) = 2\<close> wide and high, and the output pixel size is
  \<open>3/2\<close>, not \<open>1 / (1/2) = 2\<close>. All these numbers are floats, computed exactly.
\<close>

theorem resample_pixel_size_counterexample:
  "map_sum id (pixel_size \<circ> m_transform \<circ> snd)
     (fst (resample no_rounding read_ok raster_3x3 (1 / 2) None bilinear)) \<noteq>
   Inr (fst (pixel_size (r_transform raster_3x3)) / (1 / 2),
        snd (pixel_size (r_transform raster_3x3)) / (1 / 2))"
  by (simp add: resample_def resample_core_def raster_read_def check_numeric_value_sign_def
      read_ok_def raster_3x3_def py_round_three_halves Let_def img_width_def img_height_def
      north_up_def pixel_size_def affine_mul_def affine_scale_def raster_meta_def
      no_rounding_def)

text \<open>
  C4, amended. With a positive factor \<open>s\<close> for both axes, when \<^verbatim>\<open>resample\<close> returns,
  the output pixel size is the input pixel size times old width over new width (old
  height over new height vertically), quotient and product each rounded to the nearest
  float, the new dimensions being the floating-point products of the old ones and \<open>s\<close>
  rounded to integers. It is the input pixel size divided by \<open>s\<close> whenever the width times
  \<open>s\<close> and the height times \<open>s\<close> are whole numbers and no operation rounds: these two
  products, the reciprocal of \<open>s\<close> and the two quotients of the input pixel size by \<open>s\<close>
  are floats.
\<close>

theorem resample_pixel_size:
  assumes "is_rounding fl" and "0 < s" and "fy = None \<or> fy = Some s"
    and "fst (resample fl rd r s fy m) = Inr (img, meta)"
  shows "pixel_size (m_transform meta) =
           (fl (aff_a (r_transform r) *
                fl (of_nat (r_width r) / of_int (py_round (fl (of_nat (r_width r) * s))))),
            - fl (aff_e (r_transform r) *
                fl (of_nat (r_height r) / of_int (py_round (fl (of_nat (r_height r) * s)))))) \<and>
         (of_nat (r_width r) * s \<in> \<int> \<and> of_nat (r_height r) * s \<in> \<int> \<and>
          exact_on fl
            [of_nat (r_width r) * s, of_nat (r_height r) * s, 1 / s,
             aff_a (r_transform r) / s, aff_e (r_transform r) / s] \<longrightarrow>
            pixel_size (m_transform meta) =
              (fst (pixel_size (r_transform r)) / s, snd (pixel_size (r_transform r)) / s))"
proof -
  from assms(2,4) obtain reads where
    c: "resample_core fl rd r m s fy = (Inr (img, meta), reads)"
    using resample_returns by blast
  from assms(3) have fy: "(case fy of None \<Rightarrow> s | Some y \<Rightarrow> y) = s"
    by auto
  have w: "img_width img = py_round (fl (of_nat (r_width r) * s))"
    and h: "img_height img = py_round (fl (of_nat (r_height r) * s))"
    using resample_core_returns(1) [OF c] fy by (simp_all add: img_width_def img_height_def)
  have w0: "py_round (fl (of_nat (r_width r) * s)) \<noteq> 0"
    and h0: "py_round (fl (of_nat (r_height r) * s)) \<noteq> 0"
    using resample_core_returns(2,3) [OF c] w h by simp_all
  have t: "m_transform meta =
      affine_mul fl (r_transform r)
        (affine_scale
           (fl (of_nat (r_width r) / of_int (py_round (fl (of_nat (r_width r) * s)))))
           (fl (of_nat (r_height r) / of_int (py_round (fl (of_nat (r_height r) * s))))))"
    using resample_core_returns(4) [OF c] w h by simp
  have general: "pixel_size (m_transform meta) =
           (fl (aff_a (r_transform r) *
                fl (of_nat (r_width r) / of_int (py_round (fl (of_nat (r_width r) * s))))),
            - fl (aff_e (r_transform r) *
                fl (of_nat (r_height r) / of_int (py_round (fl (of_nat (r_height r) * s))))))"
    by (simp only: t pixel_size_scale [OF assms(1)])
  have exact: "pixel_size (m_transform meta) =
      (fst (pixel_size (r_transform r)) / s, snd (pixel_size (r_transform r)) / s)"
    if iw: "of_nat (r_width r) * s \<in> \<int>" and ih: "of_nat (r_height r) * s \<in> \<int>"
      and ex: "exact_on fl
            [of_nat (r_width r) * s, of_nat (r_height r) * s, 1 / s,
             aff_a (r_transform r) / s, aff_e (r_transform r) / s]"
  proof -
    from ex have fw: "fl (of_nat (r_width r) * s) = of_nat (r_width r) * s"
      and fh: "fl (of_nat (r_height r) * s) = of_nat (r_height r) * s"
      and fs: "fl (1 / s) = 1 / s"
      and fa: "fl (aff_a (r_transform r) / s) = aff_a (r_transform r) / s"
      and fe: "fl (aff_e (r_transform r) / s) = aff_e (r_transform r) / s"
      by (simp_all add: exact_on_def)
    have ew: "(of_int (py_round (fl (of_nat (r_width r) * s))) :: rat) = of_nat (r_width r) * s"
      using iw by (simp only: fw py_round_Ints)
    have eh: "(of_int (py_round (fl (of_nat (r_height r) * s))) :: rat) = of_nat (r_height r) * s"
      using ih by (simp only: fh py_round_Ints)
    have nw: "(of_nat (r_width r) :: rat) \<noteq> 0"
    proof
      assume z: "(of_nat (r_width r) :: rat) = 0"
      have "fl (of_nat (r_width r) * s) = 0"
        using fw z by simp
      then have "py_round (fl (of_nat (r_width r) * s)) = 0"
        using py_round_of_int [of 0] by simp
      with w0 show False by simp
    qed
    have nh: "(of_nat (r_height r) :: rat) \<noteq> 0"
    proof
      assume z: "(of_nat (r_height r) :: rat) = 0"
      have "fl (of_nat (r_height r) * s) = 0"
        using fh z by simp
      then have "py_round (fl (of_nat (r_height r) * s)) = 0"
        using py_round_of_int [of 0] by simp
      with h0 show False by simp
    qed
    have qw: "(of_nat (r_width r) :: rat) / (of_nat (r_width r) * s) = 1 / s"
      using nw by simp
    have qh: "(of_nat (r_height r) :: rat) / (of_nat (r_height r) * s) = 1 / s"
      using nh by simp
    have pa: "aff_a (r_transform r) * (1 / s) = aff_a (r_transform r) / s"
      by simp
    have pe: "aff_e (r_transform r) * (1 / s) = aff_e (r_transform r) / s"
      by simp
    have "pixel_size (m_transform meta) =
        (aff_a (r_transform r) / s, - (aff_e (r_transform r) / s))"
      by (simp only: general ew eh qw qh fs pa pe fa fe)
    then show ?thesis
      by (simp add: pixel_size_def)
  qed
  from general exact show ?thesis by blast
qed

theorem resample_pixel_size_witness:
  "is_rounding no_rounding \<and> (0::rat) < 2 \<and>
   ((None::rat option) = None \<or> None = Some (2::rat)) \<and>
   \<not> isl (fst (resample no_rounding read_ok raster_10x20 2 None bilinear)) \<and>
   of_nat (r_width raster_10x20) * (2::rat) \<in> \<int> \<and>
   of_nat (r_height raster_10x20) * (2::rat) \<in> \<int> \<and>
   exact_on no_rounding
     [of_nat (r_width raster_10x20) * 2, of_nat (r_height raster_10x20) * 2, 1 / 2,
      aff_a (r_transform raster_10x20) / 2, aff_e (r_transform raster_10x20) / 2] \<and>
   pixel_size
     (m_transform (snd (projr (fst (resample no_rounding read_ok raster_10x20 2 None bilinear)))))
     = (fst (pixel_size (r_transform raster_10x20)) / 2,
        snd (pixel_size (r_transform raster_10x20)) / 2)"
proof -
  have "\<exists>px. fst (resample no_rounding read_ok raster_10x20 2 None bilinear) =
      Inr (\<lparr>img_shape = (1, 40, 20), img_pixels = ()\<rparr>, px)"
    by (simp add: resample_def resample_core_def raster_read_def check_numeric_value_sign_def
        read_ok_def raster_10x20_def py_round_def Let_def img_width_def img_height_def
        no_rounding_def)
  then obtain meta where
    e: "fst (resample no_rounding read_ok raster_10x20 2 None bilinear) =
      Inr (\<lparr>img_shape = (1, 40, 20), img_pixels = ()\<rparr>, meta)"
    by blast
  have p: "(0::rat) < 2" by simp
  have q: "(None::rat option) = None \<or> None = Some (2::rat)" by simp
  have iw: "of_nat (r_width raster_10x20) * (2::rat) \<in> \<int>"
    by (simp add: raster_10x20_def)
  have ih: "of_nat (r_height raster_10x20) * (2::rat) \<in> \<int>"
    by (simp add: raster_10x20_def)
  have ex: "exact_on no_rounding
     [of_nat (r_width raster_10x20) * 2, of_nat (r_height raster_10x20) * 2, 1 / 2,
      aff_a (r_transform raster_10x20) / 2, aff_e (r_transform raster_10x20) / 2]"
    by (simp add: exact_on_def no_rounding_def)
  from resample_pixel_size [OF is_rounding_no_rounding p q e] iw ih ex
  have "pixel_size (m_transform meta) =
      (fst (pixel_size (r_transform raster_10x20)) / 2,
       snd (pixel_size (r_transform raster_10x20)) / 2)"
    by blast
  then show ?thesis
    using iw ih ex is_rounding_no_rounding by (simp add: e)
qed

text \<open>
  C9. Leaving the vertical factor out gives the same result, image, metadata and reads
  alike, as giving it the value of the horizontal factor.
\<close>

theorem resample_vertical_default:
  "resample fl rd r s None m = resample fl rd r s (Some s) m"
  by (simp add: resample_def resample_core_def)

section \<open>Properties of the statistical tests\<close>

lemma test_columns_within_limit:
  assumes "\<forall>c\<in>set cols. \<forall>xs. getitem data c = Some xs \<longrightarrow> length xs \<le> 5000"
  shows "test_columns shapiro data cols acc \<noteq> Inl SampleSizeExceededException"
  using assms
proof (induction cols arbitrary: acc)
  case Nil
  show ?case by simp
next
  case (Cons c cs)
  from Cons.prems
  have rest: "\<forall>c\<in>set cs. \<forall>xs. getitem data c = Some xs \<longrightarrow> length xs \<le> 5000"
    by simp
  show ?case
  proof (cases "getitem data c")
    case None
    then show ?thesis by simp
  next
    case col: (Some xs)
    with Cons.prems have le: "length xs \<le> 5000"
      by simp
    show ?thesis
    proof (cases "shapiro xs")
      case None
      with col le show ?thesis by simp
    next
      case (Some st)
      with col le Cons.IH [OF rest] show ?thesis by simp
    qed
  qed
qed

lemma test_columns_limit:
  assumes "cols \<noteq> []"
    and "\<And>c. c \<in> set cols \<Longrightarrow> \<exists>xs. getitem data c = Some xs \<and> length xs = n"
  shows "test_columns shapiro data cols acc = Inl SampleSizeExceededException \<longleftrightarrow> 5000 < n"
proof (cases "5000 < n")
  case True
  from assms(1) obtain c cs where cols: "cols = c # cs"
    by (cases cols) auto
  with assms(2) [of c] obtain xs where "getitem data c = Some xs" and "length xs = n"
    by auto
  with True cols show ?thesis by simp
next
  case False
  have "\<forall>c\<in>set cols. \<forall>xs. getitem data c = Some xs \<longrightarrow> length xs \<le> 5000"
    using assms(2) False by fastforce
  then have "test_columns shapiro data cols acc \<noteq> Inl SampleSizeExceededException"
    by (rule test_columns_within_limit)
  with False show ?thesis by simp
qed

lemma map_sum_Inl_iff: "map_sum id f x = Inl e \<longleftrightarrow> x = Inl e"
  by (cases x) auto

lemma getitem_length: "wf_frame df \<Longrightarrow> getitem df c = Some xs \<Longrightarrow> length xs = length (df_index df)"
  by (auto simp: wf_frame_def getitem_def list_all_iff dest!: map_of_SomeD)

lemma getitem_label: "c \<in> set (df_labels df) \<Longrightarrow> \<exists>xs. getitem df c = Some xs"
  by (cases "map_of (df_columns df) c") (auto simp: getitem_def df_labels_def map_of_eq_None_iff)

lemma labels_getitem_list:
  "set (df_labels (getitem_list df cs)) = set cs \<inter> set (df_labels df)"
  by (auto simp: getitem_list_def df_labels_def image_iff)

lemma wf_getitem_list: "wf_frame df \<Longrightarrow> wf_frame (getitem_list df cs)"
  by (auto simp: wf_frame_def getitem_list_def list_all_iff)

lemma take_rows_length:
  "length xs = length ys \<Longrightarrow> length (take_rows keep xs) = length (take_rows keep ys)"
proof (induction keep arbitrary: xs ys)
  case Nil
  then show ?case by (simp add: take_rows_def)
next
  case (Cons k ks)
  note IH = Cons.IH and prems = Cons.prems
  show ?case
  proof (cases xs)
    case Nil
    with prems show ?thesis by (simp add: take_rows_def)
  next
    case xs: (Cons x xs')
    with prems obtain y ys' where ys: "ys = y # ys'" and len: "length xs' = length ys'"
      by (cases ys) auto
    from IH [OF len] xs ys show ?thesis by (simp add: take_rows_def)
  qed
qed

lemma wf_dropna: "wf_frame df \<Longrightarrow> wf_frame (dropna df)"
  by (auto simp: wf_frame_def dropna_def Let_def list_all_iff intro!: take_rows_length)

lemma getitem_dropna:
  "getitem (dropna df) c = map_option (take_rows (notna_rows df)) (getitem df c)"
  by (simp add: dropna_def getitem_def Let_def map_of_map)

text \<open>
  C5, as the specification states it: a normality test over more than 5000
  observations always fails with the sample-size error. A table of 5001 rows whose
  column holds strings fails with \<^verbatim>\<open>NonNumericDataException\<close> instead: the type check
  comes before the count.
\<close>

theorem normality_test_counterexample:
  "5000 < length (df_index df_strings) \<and>
   normality_test shapiro_ok (DataFrame df_strings) None = Inl NonNumericDataException \<and>
   normality_test shapiro_ok (DataFrame df_strings) None \<noteq> Inl SampleSizeExceededException"
  by (simp add: normality_test_def df_strings_def check_empty_dataframe_def df_empty_def
      check_columns_numeric_def df_labels_def getitem_list_def is_numeric_dtype_def
      list_all_iff)

text \<open>
  The count of a table is taken after \<^verbatim>\<open>dropna\<close> when columns are selected: three rows of
  which one holds \<^verbatim>\<open>NaN\<close> leave two observations.
\<close>

lemma dropna_example:
  "df_columns (dropna (getitem_list df_gap [Name ''a''])) = [(Name ''a'', [Num 1, Num 2])]"
  by (simp add: dropna_def getitem_list_def df_gap_def notna_rows_def take_rows_def Let_def)

lemma replicate_5001: "replicate 5001 x = x # replicate 5000 x"
proof -
  have "(5001::nat) = Suc 5000" by simp
  then show ?thesis by (simp only: replicate_Suc)
qed

lemma normality_test_counts_after_dropna:
  "length (df_index df_gap_5001) = 5001 \<and>
   normality_test shapiro_ok (DataFrame df_gap_5001) (Some [''a'']) \<noteq>
     Inl SampleSizeExceededException"
  by (simp add: normality_test_def df_gap_5001_def check_empty_dataframe_def df_empty_def
      check_columns_valid_def check_columns_numeric_def df_labels_def getitem_list_def
      is_numeric_dtype_def list_all_iff dropna_def notna_rows_def take_rows_def Let_def
      replicate_5001 filter_replicate getitem_def shapiro_ok_def)

text \<open>
  The count of an array is the extent of its first axis: an array of shape \<open>(2, 3000)\<close>
  passes the check and all its 6000 elements reach \<^verbatim>\<open>shapiro\<close>.
\<close>

lemma normality_test_two_dimensional:
  "normality_test shapiro_ok (Ndarray arr_2x3000) None = Inr (Stat_tuple ()) \<and>
   length (filter (\<lambda>x. x \<noteq> NaN) (nd_data arr_2x3000)) = 6000"
  by (simp add: normality_test_def arr_2x3000_def nd_size_def nd_len_def shapiro_ok_def
      is_numeric_dtype_def list_all_iff filter_replicate)

text \<open>
  C5, amended. For a well-formed, non-empty table whose tested columns exist and are
  numeric, \<^verbatim>\<open>normality_test\<close> fails with \<^verbatim>\<open>SampleSizeExceededException\<close> exactly when the
  number of rows exceeds 5000, the rows being counted after those with a missing value in
  a selected column are dropped when columns are selected (and at least one is). For a
  non-empty one-dimensional array it fails with that error exactly when the length of the
  array exceeds 5000. So 5000 passes the check and 5001 fails it.
\<close>

theorem normality_test_sample_limit:
  "(wf_frame df \<and> \<not> check_empty_dataframe df \<and> check_columns_numeric df (df_labels df) \<longrightarrow>
      (normality_test shapiro (DataFrame df) None = Inl SampleSizeExceededException \<longleftrightarrow>
         5000 < length (df_index df))) \<and>
   (wf_frame df' \<and> \<not> check_empty_dataframe df' \<and> cols \<noteq> [] \<and>
    check_columns_valid df' (map Name cols) \<and> check_columns_numeric df' (map Name cols) \<longrightarrow>
      (normality_test shapiro (DataFrame df') (Some cols) = Inl SampleSizeExceededException \<longleftrightarrow>
         5000 < length (df_index (dropna (getitem_list df' (map Name cols)))))) \<and>
   (nd_shape arr = [n] \<and> 0 < n \<longrightarrow>
      (normality_test shapiro (Ndarray arr) columns = Inl SampleSizeExceededException \<longleftrightarrow>
         5000 < n))"
proof (intro conjI impI)
  assume a: "wf_frame df \<and> \<not> check_empty_dataframe df \<and>
    check_columns_numeric df (df_labels df)"
  then have ne: "df_labels df \<noteq> []"
    by (auto simp: check_empty_dataframe_def df_empty_def df_labels_def)
  have "test_columns shapiro df (df_labels df) Map.empty = Inl SampleSizeExceededException \<longleftrightarrow>
      5000 < length (df_index df)"
  proof (rule test_columns_limit [OF ne])
    fix c
    assume "c \<in> set (df_labels df)"
    then obtain xs where "getitem df c = Some xs"
      using getitem_label by blast
    with a show "\<exists>xs. getitem df c = Some xs \<and> length xs = length (df_index df)"
      by (auto dest: getitem_length)
  qed
  with a show "normality_test shapiro (DataFrame df) None = Inl SampleSizeExceededException \<longleftrightarrow>
      5000 < length (df_index df)"
    by (simp add: normality_test_def map_sum_Inl_iff)
next
  let ?sel = "getitem_list df' (map Name cols)"
  assume a: "wf_frame df' \<and> \<not> check_empty_dataframe df' \<and> cols \<noteq> [] \<and>
    check_columns_valid df' (map Name cols) \<and> check_columns_numeric df' (map Name cols)"
  then have ne: "map Name cols \<noteq> []"
    by simp
  from a have wf: "wf_frame (dropna ?sel)"
    by (simp add: wf_getitem_list wf_dropna)
  have "test_columns shapiro (dropna ?sel) (map Name cols) Map.empty =
      Inl SampleSizeExceededException \<longleftrightarrow> 5000 < length (df_index (dropna ?sel))"
  proof (rule test_columns_limit [OF ne])
    fix c
    assume c: "c \<in> set (map Name cols)"
    with a have "c \<in> set (df_labels df')"
      by (auto simp: check_columns_valid_def list_all_iff)
    with c have "c \<in> set (df_labels ?sel)"
      by (simp add: labels_getitem_list)
    then obtain xs where "getitem ?sel c = Some xs"
      using getitem_label by blast
    then have "getitem (dropna ?sel) c = Some (take_rows (notna_rows ?sel) xs)"
      by (simp add: getitem_dropna)
    with wf show "\<exists>xs. getitem (dropna ?sel) c = Some xs \<and>
        length xs = length (df_index (dropna ?sel))"
      by (auto dest: getitem_length)
  qed
  with a show "normality_test shapiro (DataFrame df') (Some cols) =
      Inl SampleSizeExceededException \<longleftrightarrow> 5000 < length (df_index (dropna ?sel))"
    by (simp add: normality_test_def map_sum_Inl_iff)
next
  assume "nd_shape arr = [n] \<and> 0 < n"
  then show "normality_test shapiro (Ndarray arr) columns = Inl SampleSizeExceededException \<longleftrightarrow>
      5000 < n"
    by (auto simp: normality_test_def nd_size_def nd_len_def split: option.splits)
qed

theorem normality_test_sample_limit_witness:
  "(wf_frame df_ones \<and> \<not> check_empty_dataframe df_ones \<and>
    check_columns_numeric df_ones (df_labels df_ones)) \<and>
   normality_test shapiro_ok (DataFrame df_ones) None = Inl SampleSizeExceededException \<and>
   (wf_frame df_gap \<and> \<not> check_empty_dataframe df_gap \<and> [''a''] \<noteq> [] \<and>
    check_columns_valid df_gap (map Name [''a'']) \<and>
    check_columns_numeric df_gap (map Name [''a''])) \<and>
   normality_test shapiro_ok (DataFrame df_gap) (Some [''a'']) \<noteq>
     Inl SampleSizeExceededException \<and>
   (nd_shape arr_5001 = [5001] \<and> (0::nat) < 5001) \<and>
   normality_test shapiro_ok (Ndarray arr_5001) None = Inl SampleSizeExceededException \<and>
   (nd_shape arr_5000 = [5000] \<and> (0::nat) < 5000) \<and>
   normality_test shapiro_ok (Ndarray arr_5000) None \<noteq> Inl SampleSizeExceededException"
proof -
  have h1: "wf_frame df_ones \<and> \<not> check_empty_dataframe df_ones \<and>
      check_columns_numeric df_ones (df_labels df_ones)"
    by (simp add: wf_frame_def df_ones_def check_empty_dataframe_def df_empty_def
        check_columns_numeric_def df_labels_def getitem_list_def is_numeric_dtype_def
        list_all_iff)
  have n1: "5000 < length (df_index df_ones)"
    by (simp add: df_ones_def)
  have h2: "wf_frame df_gap \<and> \<not> check_empty_dataframe df_gap \<and> [''a''] \<noteq> [] \<and>
      check_columns_valid df_gap (map Name [''a'']) \<and>
      check_columns_numeric df_gap (map Name [''a''])"
    by (simp add: wf_frame_def df_gap_def check_empty_dataframe_def df_empty_def
        check_columns_valid_def check_columns_numeric_def df_labels_def getitem_list_def
        is_numeric_dtype_def)
  have n2: "\<not> 5000 < length (df_index (dropna (getitem_list df_gap (map Name [''a'']))))"
    by (simp add: dropna_def getitem_list_def df_gap_def notna_rows_def take_rows_def Let_def)
  have h3: "nd_shape arr_5001 = [5001] \<and> (0::nat) < 5001"
    by (simp add: arr_5001_def)
  have h4: "nd_shape arr_5000 = [5000] \<and> (0::nat) < 5000"
    by (simp add: arr_5000_def)
  note at_5001 = normality_test_sample_limit
    [where df = df_ones and df' = df_gap and cols = "[''a'']" and arr = arr_5001
      and n = 5001 and shapiro = shapiro_ok and columns = None]
  note at_5000 = normality_test_sample_limit
    [where df = df_ones and df' = df_gap and cols = "[''a'']" and arr = arr_5000
      and n = 5000 and shapiro = shapiro_ok and columns = None]
  from at_5001 h1 n1
  have c1: "normality_test shapiro_ok (DataFrame df_ones) None = Inl SampleSizeExceededException"
    by simp
  from at_5001 h2 n2
  have c2: "normality_test shapiro_ok (DataFrame df_gap) (Some [''a'']) \<noteq>
      Inl SampleSizeExceededException"
    by simp
  from at_5001 h3
  have c3: "normality_test shapiro_ok (Ndarray arr_5001) None = Inl SampleSizeExceededException"
    by simp
  from at_5000 h4
  have c4: "normality_test shapiro_ok (Ndarray arr_5000) None \<noteq> Inl SampleSizeExceededException"
    by simp
  from h1 c1 h2 c2 h3 c3 h4 c4 show ?thesis
    by simp
qed

text \<open>
  C7. On an empty table both \<^verbatim>\<open>correlation_matrix\<close> and \<^verbatim>\<open>covariance_matrix\<close> fail with
  \<^verbatim>\<open>EmptyDataFrameException\<close>, whatever the other arguments are, and the log of matrix
  computations is empty.
\<close>

theorem matrix_of_empty_table:
  "df_empty data \<Longrightarrow>
   correlation_matrix corr data correlation_method min_periods =
     (Inl EmptyDataFrameException, []) \<and>
   covariance_matrix cov data min_periods' delta_degrees_of_freedom =
     (Inl EmptyDataFrameException, [])"
  by (simp add: correlation_matrix_def covariance_matrix_def check_empty_dataframe_def)

theorem matrix_of_empty_table_witness:
  "df_empty df_none \<and>
   correlation_matrix corr_ok df_none kendall (Some 3) = (Inl EmptyDataFrameException, []) \<and>
   covariance_matrix cov_ok df_none (Some (- 2)) (- 1) = (Inl EmptyDataFrameException, [])"
proof -
  have e: "df_empty df_none"
    by (simp add: df_empty_def df_none_def)
  from matrix_of_empty_table [OF e, of corr_ok kendall "Some 3" cov_ok "Some (- 2)" "- 1"] e
  show ?thesis by simp
qed

section \<open>Properties of the pairwise logratio\<close>

lemma single_pairwise_logratio_equal: "single_pairwise_logratio 1 1 = Inr 0"
  by (simp add: single_pairwise_logratio_def)

text \<open>
  C8. When the numerator or the denominator is zero, \<^verbatim>\<open>single_pairwise_logratio\<close>
  fails with \<^verbatim>\<open>InvalidParameterValueException\<close>.
\<close>

theorem single_pairwise_logratio_zero:
  "numerator = 0 \<or> denominator = 0 \<Longrightarrow>
   single_pairwise_logratio numerator denominator = Inl InvalidParameterValueException"
  by (auto simp: single_pairwise_logratio_def)

theorem single_pairwise_logratio_zero_witness:
  "((0::real) = 0 \<or> (1::real) = 0) \<and>
   single_pairwise_logratio 0 1 = Inl InvalidParameterValueException \<and>
   single_pairwise_logratio 1 0 = Inl InvalidParameterValueException \<and>
   single_pairwise_logratio 0 0 = Inl InvalidParameterValueException"
  using single_pairwise_logratio_zero [of 0 1] single_pairwise_logratio_zero [of 1 0]
    single_pairwise_logratio_zero [of 0 0]
  by simp

section \<open>Properties of the one-hot encoding\<close>

lemma length_categories: "length (categories xs) = card (set xs)"
  by (simp add: categories_def length_remdups_card_conv)

lemma length_encode_feature:
  "length (encode_feature str_cat ind drop_category feature) =
     expected_indicators drop_category (card (set (snd feature)))"
  by (auto simp: encode_feature_def kept_categories_def expected_indicators_def
      length_categories split: option.splits drop_category.splits)

text \<open>
  When \<^verbatim>\<open>one_hot_encode\<close> returns on a table: the table was not empty, the selected
  columns exist, the encoder did not refuse, and the result is a table made of the
  input's columns and the encoded ones.
\<close>

lemma one_hot_encode_frame_returns:
  assumes "one_hot_encode refuses grp str_cat ind h (DataFrame r) columns
             drop_encoded_columns drop_category sparse_output handle_unknown min_frequency
             max_categories = (Inr out, h')"
  shows "\<exists>res encoded_data.
      out = EncodedFrame res \<and>
      \<not> df_empty (h_objs h r) \<and>
      (case columns of None \<Rightarrow> True
       | Some cols \<Rightarrow> check_columns_valid (h_objs h r) (map Name cols)) \<and>
      fit_transform refuses grp str_cat ind drop_category handle_unknown min_frequency
        max_categories
        (case columns of None \<Rightarrow> h_objs h r
         | Some cols \<Rightarrow> getitem_list (h_objs h r) (map Name cols)) = Inr encoded_data \<and>
      h_objs h' res =
        df_concat
          (if drop_encoded_columns
           then df_drop (h_objs h r)
                  (df_labels (case columns of None \<Rightarrow> h_objs h r
                     | Some cols \<Rightarrow> getitem_list (h_objs h r) (map Name cols)))
           else h_objs h r)
          \<lparr>df_index = df_index (h_objs h r), df_columns = encoded_data\<rparr>"
  using assms
  by (cases columns)
    (auto simp: one_hot_encode_def alloc_def Let_def zip_map_fst_snd
      split: if_splits sum.splits)

text \<open>
  It does return when the table is not empty, the selected columns exist and the encoder
  does not refuse.
\<close>

lemma one_hot_encode_frame_total:
  assumes "\<not> df_empty (h_objs h r)"
    and "case columns of None \<Rightarrow> True
         | Some cols \<Rightarrow> check_columns_valid (h_objs h r) (map Name cols)"
    and "\<not> refuses drop_category handle_unknown min_frequency max_categories
           (case columns of None \<Rightarrow> h_objs h r
            | Some cols \<Rightarrow> getitem_list (h_objs h r) (map Name cols))"
  shows "\<exists>res h'.
      one_hot_encode refuses grp str_cat ind h (DataFrame r) columns drop_encoded_columns
        drop_category sparse_output handle_unknown min_frequency max_categories =
        (Inr (EncodedFrame res), h')"
  using assms
  by (cases columns) (simp_all add: one_hot_encode_def fit_transform_def alloc_def Let_def)

lemma selected_labels:
  "check_columns_valid df (map Name cols) \<Longrightarrow>
   set (df_labels (getitem_list df (map Name cols))) = Name ` set cols"
  by (auto simp: labels_getitem_list check_columns_valid_def list_all_iff)

text \<open>
  C6. With the frequency and category limits left at \<^verbatim>\<open>None\<close>, whenever
  \<^verbatim>\<open>one_hot_encode\<close> of a table returns (the table is not empty, the selected columns
  exist and the encoder raises nothing), it returns a new table. Its columns are those of
  the input, without the selected ones when \<^verbatim>\<open>drop_encoded_columns\<close> is set, followed by
  the indicator columns of each selected column in turn; a selected column with \<open>k\<close>
  distinct values gives \<open>k\<close> indicator columns, \<open>k - 1\<close> under \<^verbatim>\<open>drop_category="first"\<close>
  (and, under \<^verbatim>\<open>"if_binary"\<close>, one when \<open>k\<close> is two and \<open>k\<close> otherwise).
\<close>

theorem one_hot_encode_indicator_columns:
  assumes "df = h_objs h r"
    and "transform_df =
           (case columns of None \<Rightarrow> df | Some cols \<Rightarrow> getitem_list df (map Name cols))"
    and "one_hot_encode refuses grp str_cat ind h (DataFrame r) columns drop_encoded_columns
           drop_category sparse_output handle_unknown None None = (Inr out, h')"
  shows "\<exists>res.
      out = EncodedFrame res \<and>
      df_columns (h_objs h' res) =
        (if drop_encoded_columns
         then filter (\<lambda>p. fst p \<notin> set (df_labels transform_df)) (df_columns df)
         else df_columns df) @
        concat (map (encode_feature str_cat ind drop_category) (df_columns transform_df)) \<and>
      list_all
        (\<lambda>feature. length (encode_feature str_cat ind drop_category feature) =
           expected_indicators drop_category (card (set (snd feature))))
        (df_columns transform_df) \<and>
      set (df_labels transform_df) =
        (case columns of None \<Rightarrow> set (df_labels df) | Some cols \<Rightarrow> Name ` set cols)"
proof -
  from one_hot_encode_frame_returns [OF assms(3)]
  obtain res encoded_data where
    out: "out = EncodedFrame res"
    and valid: "case columns of None \<Rightarrow> True
       | Some cols \<Rightarrow> check_columns_valid df (map Name cols)"
    and enc: "fit_transform refuses grp str_cat ind drop_category handle_unknown None None
        transform_df = Inr encoded_data"
    and obj: "h_objs h' res =
        df_concat
          (if drop_encoded_columns then df_drop df (df_labels transform_df) else df)
          \<lparr>df_index = df_index df, df_columns = encoded_data\<rparr>"
    unfolding assms(1,2) by blast
  from enc have data: "encoded_data =
      concat (map (encode_feature str_cat ind drop_category) (df_columns transform_df))"
    by (simp add: fit_transform_def split: if_splits)
  have cols: "df_columns (h_objs h' res) =
        (if drop_encoded_columns
         then filter (\<lambda>p. fst p \<notin> set (df_labels transform_df)) (df_columns df)
         else df_columns df) @
        concat (map (encode_feature str_cat ind drop_category) (df_columns transform_df))"
    by (simp add: obj data df_concat_def df_drop_def)
  have count: "list_all
        (\<lambda>feature. length (encode_feature str_cat ind drop_category feature) =
           expected_indicators drop_category (card (set (snd feature))))
        (df_columns transform_df)"
    by (simp add: list_all_iff length_encode_feature)
  have labels: "set (df_labels transform_df) =
        (case columns of None \<Rightarrow> set (df_labels df) | Some cols \<Rightarrow> Name ` set cols)"
    using assms(2) valid by (cases columns) (simp_all add: selected_labels)
  from out cols count labels show ?thesis by blast
qed

theorem one_hot_encode_indicator_columns_witness:
  "df_cats = h_objs heap_cats 0 \<and>
   getitem_list df_cats (map Name [''a'']) =
     (case Some [''a''] of None \<Rightarrow> df_cats | Some cols \<Rightarrow> getitem_list df_cats (map Name cols)) \<and>
   (\<exists>res h'.
      one_hot_encode never_refuses grp_none str_int ind_int heap_cats (DataFrame 0)
        (Some [''a'']) True (Some first) True infrequent_if_exist None None =
        (Inr (EncodedFrame res), h') \<and>
      df_columns (h_objs h' res) =
        [(Name ''b'', [5, 5, 6, 6]), (Name ''a_2'', [0, 1, 0, 0]), (Name ''a_3'', [0, 0, 0, 1])])"
proof -
  have a1: "df_cats = h_objs heap_cats 0"
    by (simp add: heap_cats_def)
  have a2: "getitem_list df_cats (map Name [''a'']) =
     (case Some [''a''] of None \<Rightarrow> df_cats | Some cols \<Rightarrow> getitem_list df_cats (map Name cols))"
    by simp
  have "\<exists>res h'.
      one_hot_encode never_refuses grp_none str_int ind_int heap_cats (DataFrame 0)
        (Some [''a'']) True (Some first) True infrequent_if_exist None None =
        (Inr (EncodedFrame res), h')"
    by (rule one_hot_encode_frame_total)
      (simp_all add: heap_cats_def df_cats_def df_empty_def check_columns_valid_def
        df_labels_def never_refuses_def)
  then obtain res h' where
    run: "one_hot_encode never_refuses grp_none str_int ind_int heap_cats (DataFrame 0)
        (Some [''a'']) True (Some first) True infrequent_if_exist None None =
        (Inr (EncodedFrame res), h')"
    by blast
  have sel: "df_columns (getitem_list df_cats [Name ''a'']) = [(Name ''a'', [1, 2, 1, 3])]"
    by (simp add: getitem_list_def df_cats_def)
  have lab: "df_labels (getitem_list df_cats [Name ''a'']) = [Name ''a'']"
    by (simp add: df_labels_def sel)
  have enc: "encode_feature str_int ind_int (Some first) (Name ''a'', [1, 2, 1, 3]) =
      [(Name ''a_2'', [0, 1, 0, 0]), (Name ''a_3'', [0, 0, 0, 1])]"
    by (simp add: encode_feature_def kept_categories_def categories_def
        feature_name_combiner_def str_int_def ind_int_def)
  have kept: "filter (\<lambda>p. fst p \<noteq> Name ''a'') (df_columns df_cats) =
      [(Name ''b'', [5, 5, 6, 6])]"
    by (simp add: df_cats_def)
  from one_hot_encode_indicator_columns [OF a1 a2 run]
  have "df_columns (h_objs h' res) =
        filter (\<lambda>p. fst p \<notin> set (df_labels (getitem_list df_cats (map Name [''a'']))))
          (df_columns df_cats) @
        concat (map (encode_feature str_int ind_int (Some first))
          (df_columns (getitem_list df_cats (map Name [''a'']))))"
    by auto
  then have "df_columns (h_objs h' res) =
        [(Name ''b'', [5, 5, 6, 6]), (Name ''a_2'', [0, 1, 0, 0]), (Name ''a_3'', [0, 0, 0, 1])]"
    by (simp add: sel lab enc kept)
  with run a1 a2 show ?thesis by blast
qed

text \<open>
  C10. \<^verbatim>\<open>one_hot_encode\<close> leaves the table it is given as it was: after the call, with
  whatever arguments and whether it fails or returns, the store holds the same table
  (index, columns and values) at the address of the input, and a returned table is
  another object than the input.
\<close>

theorem one_hot_encode_keeps_input:
  assumes "r < h_next h"
    and "one_hot_encode refuses grp str_cat ind h (DataFrame r) columns drop_encoded_columns
           drop_category sparse_output handle_unknown min_frequency max_categories = (res, h')"
  shows "h_objs h' r = h_objs h r \<and> res \<noteq> Inr (EncodedFrame r)"
  using assms
  by (auto simp: one_hot_encode_def alloc_def Let_def
      split: if_splits option.splits sum.splits)

theorem one_hot_encode_keeps_input_witness:
  "0 < h_next heap_cats \<and>
   h_objs (snd (one_hot_encode never_refuses grp_none str_int ind_int heap_cats (DataFrame 0)
      (Some [''a'']) True (Some first) True infrequent_if_exist None None)) 0 =
     h_objs heap_cats 0 \<and>
   fst (one_hot_encode never_refuses grp_none str_int ind_int heap_cats (DataFrame 0)
      (Some [''a'']) True (Some first) True infrequent_if_exist None None) \<noteq>
     Inr (EncodedFrame 0)"
proof -
  have a: "0 < h_next heap_cats"
    by (simp add: heap_cats_def)
  from one_hot_encode_keeps_input [OF a prod.collapse [symmetric]] a
  show ?thesis by blast
qed

end
